theory Spec2Isabelle
  imports Main "HOL-Library.Word" "HOL-Library.Sublist"
begin

section \<open>Trace session: provider set-up and event dispatch (TraceSession.cpp)\<close>

text \<open>
  The provider GUIDs compared by \<^verbatim>\<open>EventRecordCallback\<close>.  The GUIDs are pairwise
  different constants, so a provider id is a constructor; any other GUID is
  \<open>Other_Provider\<close>.
\<close>

datatype provider =
    Microsoft_Windows_DxgKrnl
  | Microsoft_Windows_DxgKrnl_Win7
  | Win7_BLT_GUID
  | Win7_FLIP_GUID
  | Win7_PRESENTHISTORY_GUID
  | Win7_QUEUEPACKET_GUID
  | Win7_VSYNCDPC_GUID
  | Win7_MMIOFLIP_GUID
  | Microsoft_Windows_DXGI
  | Microsoft_Windows_D3D9
  | NT_Process
  | Microsoft_Windows_EventMetadata
  | Microsoft_Windows_Win32k
  | Microsoft_Windows_Dwm_Core
  | Microsoft_Windows_Dwm_Core_Win7
  | DHD_PROVIDER_GUID
  | SPECTRUMCONTINUOUS_PROVIDER_GUID
  | Other_Provider nat

text \<open>The member functions of the two consumers that the callback can invoke.\<close>

datatype handler =
    HandleDXGKEvent
  | HandleDXGIEvent
  | HandleD3D9Event
  | HandleNTProcessEvent
  | HandleWin7DxgkPresentHistory
  | HandleMetadataEvent
  | HandleWin32kEvent
  | HandleDWMEvent
  | HandleWin7DxgkBlt
  | HandleWin7DxgkFlip
  | HandleWin7DxgkQueuePacket
  | HandleWin7DxgkVSyncDPC
  | HandleWin7DxgkMMIOFlip
  | HandleSpectrumContinuousEvent
  | HandleDHDEvent

record EVENT_HEADER =
  ProviderId :: provider
  TimeStamp :: "64 word"
  HdrProcessId :: "32 word"
  HdrThreadId :: "32 word"

text \<open>
  \<^verbatim>\<open>EventRecordCallback<SAVE_FIRST_TIMESTAMP, TRACK_DISPLAY, TRACK_WMR>\<close>: the new
  value of the session's \<^verbatim>\<open>mStartQpc\<close> and the handler invoked, if any.  The
  chain of \<^verbatim>\<open>if (...) { ...; return; }\<close> is kept in the order of the source.
\<close>

definition EventRecordCallback ::
  "bool \<Rightarrow> bool \<Rightarrow> bool \<Rightarrow> EVENT_HEADER \<Rightarrow> 64 word \<Rightarrow> 64 word \<times> handler option" where
  "EventRecordCallback SAVE_FIRST_TIMESTAMP TRACK_DISPLAY TRACK_WMR hdr mStartQpc =
    (let mStartQpc' = (if SAVE_FIRST_TIMESTAMP \<and> mStartQpc = 0 then TimeStamp hdr else mStartQpc);
         p = ProviderId hdr
     in (mStartQpc',
       if p = Microsoft_Windows_DxgKrnl then Some HandleDXGKEvent
       else if p = Microsoft_Windows_DXGI then Some HandleDXGIEvent
       else if p = Microsoft_Windows_D3D9 then Some HandleD3D9Event
       else if p = NT_Process then Some HandleNTProcessEvent
       else if p = Win7_PRESENTHISTORY_GUID then Some HandleWin7DxgkPresentHistory
       else if p = Microsoft_Windows_EventMetadata then Some HandleMetadataEvent
       else if TRACK_DISPLAY \<and> p = Microsoft_Windows_Win32k then Some HandleWin32kEvent
       else if TRACK_DISPLAY \<and> p = Microsoft_Windows_Dwm_Core then Some HandleDWMEvent
       else if TRACK_DISPLAY \<and> p = Microsoft_Windows_Dwm_Core_Win7 then Some HandleDWMEvent
       else if TRACK_DISPLAY \<and> p = Win7_BLT_GUID then Some HandleWin7DxgkBlt
       else if TRACK_DISPLAY \<and> p = Win7_FLIP_GUID then Some HandleWin7DxgkFlip
       else if TRACK_DISPLAY \<and> p = Win7_QUEUEPACKET_GUID then Some HandleWin7DxgkQueuePacket
       else if TRACK_DISPLAY \<and> p = Win7_VSYNCDPC_GUID then Some HandleWin7DxgkVSyncDPC
       else if TRACK_DISPLAY \<and> p = Win7_MMIOFLIP_GUID then Some HandleWin7DxgkMMIOFlip
       else if TRACK_DISPLAY \<and> TRACK_WMR \<and> p = SPECTRUMCONTINUOUS_PROVIDER_GUID
         then Some HandleSpectrumContinuousEvent
       else if TRACK_WMR \<and> p = DHD_PROVIDER_GUID then Some HandleDHDEvent
       else None))"

text \<open>
  \<^verbatim>\<open>GetEventRecordCallback(saveFirstTimestamp, trackDisplay, trackWMR)\<close> selects the
  instantiation of the template with the three run-time flags;
  \<^verbatim>\<open>TraceSession::Start\<close> passes \<^verbatim>\<open>pmConsumer->mTrackDisplay\<close> as \<open>trackDisplay\<close>.
\<close>

definition GetEventRecordCallback ::
  "bool \<Rightarrow> bool \<Rightarrow> bool \<Rightarrow> EVENT_HEADER \<Rightarrow> 64 word \<Rightarrow> 64 word \<times> handler option" where
  "GetEventRecordCallback saveFirstTimestamp trackDisplay trackWMR =
    (if saveFirstTimestamp
     then (if trackDisplay
           then (if trackWMR then EventRecordCallback True True True
                 else EventRecordCallback True True False)
           else (if trackWMR then EventRecordCallback True False True
                 else EventRecordCallback True False False))
     else (if trackDisplay
           then (if trackWMR then EventRecordCallback False True True
                 else EventRecordCallback False True False)
           else (if trackWMR then EventRecordCallback False False True
                 else EventRecordCallback False False False)))"

text \<open>The handler that the session's callback invokes for an event of provider \<open>p\<close>.\<close>

definition dispatch :: "bool \<Rightarrow> bool \<Rightarrow> bool \<Rightarrow> provider \<Rightarrow> handler option" where
  "dispatch saveFirstTimestamp trackDisplay trackWMR p =
    snd (GetEventRecordCallback saveFirstTimestamp trackDisplay trackWMR
          \<lparr>ProviderId = p, TimeStamp = 0, HdrProcessId = 0, HdrThreadId = 0\<rparr> 0)"

subsection \<open>EnableProviders\<close>

text \<open>
  The event descriptors whose \<^verbatim>\<open>::Id\<close> is put into an event-id filter, by provider.
\<close>

datatype event_id =
    DxgKrnl_PresentHistory_Start
  | DxgKrnl_Blit_Info
  | DxgKrnl_Flip_Info
  | DxgKrnl_IndependentFlip_Info
  | DxgKrnl_FlipMultiPlaneOverlay_Info
  | DxgKrnl_HSyncDPCMultiPlane_Info
  | DxgKrnl_VSyncDPCMultiPlane_Info
  | DxgKrnl_MMIOFlip_Info
  | DxgKrnl_MMIOFlipMultiPlaneOverlay_Info
  | DxgKrnl_Present_Info
  | DxgKrnl_PresentHistory_Info
  | DxgKrnl_PresentHistoryDetailed_Start
  | DxgKrnl_QueuePacket_Start
  | DxgKrnl_QueuePacket_Stop
  | DxgKrnl_VSyncDPC_Info
  | Win32k_TokenCompositionSurfaceObject_Info
  | Win32k_TokenStateChanged_Info
  | Dwm_GetPresentHistory_Info
  | Dwm_SCHEDULE_PRESENT_Start
  | Dwm_SCHEDULE_SURFACEUPDATE_Info
  | Dwm_FlipChain_Pending
  | Dwm_FlipChain_Complete
  | Dwm_FlipChain_Dirty
  | DXGI_Present_Start
  | DXGI_Present_Stop
  | DXGI_PresentMultiplaneOverlay_Start
  | DXGI_PresentMultiplaneOverlay_Stop
  | D3D9_Present_Start
  | D3D9_Present_Stop

text \<open>The \<^verbatim>\<open>Id\<close> of the DxgKrnl descriptors (ETW/Microsoft\_Windows\_DxgKrnl.h).\<close>

fun DxgKrnl_Id :: "event_id \<Rightarrow> 16 word option" where
  "DxgKrnl_Id DxgKrnl_Blit_Info = Some 0x00a6"
| "DxgKrnl_Id DxgKrnl_FlipMultiPlaneOverlay_Info = Some 0x00fc"
| "DxgKrnl_Id DxgKrnl_Flip_Info = Some 0x00a8"
| "DxgKrnl_Id DxgKrnl_HSyncDPCMultiPlane_Info = Some 0x017e"
| "DxgKrnl_Id DxgKrnl_IndependentFlip_Info = Some 0x010a"
| "DxgKrnl_Id DxgKrnl_MMIOFlipMultiPlaneOverlay_Info = Some 0x0103"
| "DxgKrnl_Id DxgKrnl_MMIOFlip_Info = Some 0x0074"
| "DxgKrnl_Id DxgKrnl_PresentHistoryDetailed_Start = Some 0x00d7"
| "DxgKrnl_Id DxgKrnl_PresentHistory_Info = Some 0x00ac"
| "DxgKrnl_Id DxgKrnl_PresentHistory_Start = Some 0x00ab"
| "DxgKrnl_Id DxgKrnl_Present_Info = Some 0x00b8"
| "DxgKrnl_Id DxgKrnl_QueuePacket_Start = Some 0x00b2"
| "DxgKrnl_Id DxgKrnl_QueuePacket_Stop = Some 0x00b4"
| "DxgKrnl_Id DxgKrnl_VSyncDPCMultiPlane_Info = Some 0x0111"
| "DxgKrnl_Id DxgKrnl_VSyncDPC_Info = Some 0x0011"
| "DxgKrnl_Id _ = None"

text \<open>
  Keyword masks are kept symbolic (the bitwise OR of the listed keywords), since only
  the DxgKrnl keyword values are declared in the sources at hand; \<open>Mask_Bits\<close> is a
  literal mask.
\<close>

datatype keyword =
    DxgKrnl_Base
  | Win32k_Updates
  | Win32k_Visualization
  | Win32k_Tracing
  | DXGI_Analytic
  | DXGI_Events
  | D3D9_Analytic
  | D3D9_Events

datatype mask = Keywords "keyword list" | Mask_Bits nat

datatype trace_level = TRACE_LEVEL_INFORMATION | TRACE_LEVEL_VERBOSE

text \<open>
  One call that enables a provider on the session: \<^verbatim>\<open>EnableFilteredProvider\<close> when
  \<open>req_events\<close> is \<open>Some ids\<close> (only these event ids are let in), a plain
  \<^verbatim>\<open>EnableTraceEx2\<close> with no filter descriptor when it is \<open>None\<close>.
\<close>

record enable_request =
  req_provider :: provider
  req_level :: trace_level
  req_any :: mask
  req_all :: mask
  req_events :: "event_id list option"

definition ERROR_SUCCESS :: "32 word" where
  "ERROR_SUCCESS = 0"

definition DxgKrnl_eventIds :: "bool \<Rightarrow> event_id list" where
  "DxgKrnl_eventIds mTrackDisplay =
    [DxgKrnl_PresentHistory_Start] @
    (if mTrackDisplay then
       [DxgKrnl_Blit_Info, DxgKrnl_Flip_Info, DxgKrnl_IndependentFlip_Info,
        DxgKrnl_FlipMultiPlaneOverlay_Info, DxgKrnl_HSyncDPCMultiPlane_Info,
        DxgKrnl_VSyncDPCMultiPlane_Info, DxgKrnl_MMIOFlip_Info,
        DxgKrnl_MMIOFlipMultiPlaneOverlay_Info, DxgKrnl_Present_Info,
        DxgKrnl_PresentHistory_Info, DxgKrnl_PresentHistoryDetailed_Start,
        DxgKrnl_QueuePacket_Start, DxgKrnl_QueuePacket_Stop, DxgKrnl_VSyncDPC_Info]
     else [])"

text \<open>
  The calls of \<^verbatim>\<open>EnableProviders\<close> in program order.  \<open>mrConsumer\<close> is \<open>None\<close> for a
  null pointer and \<open>Some mSimpleMode\<close> otherwise.
\<close>

definition provider_requests :: "bool \<Rightarrow> bool option \<Rightarrow> enable_request list" where
  "provider_requests mTrackDisplay mrConsumer =
    [\<lparr>req_provider = Microsoft_Windows_DxgKrnl, req_level = TRACE_LEVEL_INFORMATION,
      req_any = Keywords [DxgKrnl_Base], req_all = Mask_Bits 0,
      req_events = Some (DxgKrnl_eventIds mTrackDisplay)\<rparr>,
     \<lparr>req_provider = Microsoft_Windows_DxgKrnl_Win7, req_level = TRACE_LEVEL_INFORMATION,
      req_any = Keywords [DxgKrnl_Base], req_all = Mask_Bits 0, req_events = None\<rparr>] @
    (if mTrackDisplay then
      [\<lparr>req_provider = Microsoft_Windows_Win32k, req_level = TRACE_LEVEL_INFORMATION,
        req_any = Keywords [Win32k_Updates, Win32k_Visualization, Win32k_Tracing],
        req_all = Keywords [Win32k_Updates, Win32k_Tracing],
        req_events = Some [Win32k_TokenCompositionSurfaceObject_Info,
                           Win32k_TokenStateChanged_Info]\<rparr>,
       \<lparr>req_provider = Microsoft_Windows_Dwm_Core, req_level = TRACE_LEVEL_VERBOSE,
        req_any = Mask_Bits 0, req_all = Mask_Bits 0,
        req_events = Some [Dwm_GetPresentHistory_Info, Dwm_SCHEDULE_PRESENT_Start,
                           Dwm_SCHEDULE_SURFACEUPDATE_Info, Dwm_FlipChain_Pending,
                           Dwm_FlipChain_Complete, Dwm_FlipChain_Dirty]\<rparr>,
       \<lparr>req_provider = Microsoft_Windows_Dwm_Core_Win7, req_level = TRACE_LEVEL_VERBOSE,
        req_any = Mask_Bits 0, req_all = Mask_Bits 0, req_events = None\<rparr>]
     else []) @
    [\<lparr>req_provider = Microsoft_Windows_DXGI, req_level = TRACE_LEVEL_INFORMATION,
      req_any = Keywords [DXGI_Analytic, DXGI_Events],
      req_all = Keywords [DXGI_Analytic, DXGI_Events],
      req_events = Some [DXGI_Present_Start, DXGI_Present_Stop,
                         DXGI_PresentMultiplaneOverlay_Start,
                         DXGI_PresentMultiplaneOverlay_Stop]\<rparr>,
     \<lparr>req_provider = Microsoft_Windows_D3D9, req_level = TRACE_LEVEL_INFORMATION,
      req_any = Keywords [D3D9_Analytic, D3D9_Events],
      req_all = Keywords [D3D9_Analytic, D3D9_Events],
      req_events = Some [D3D9_Present_Start, D3D9_Present_Stop]\<rparr>] @
    (case mrConsumer of
       None \<Rightarrow> []
     | Some mSimpleMode \<Rightarrow>
        [\<lparr>req_provider = DHD_PROVIDER_GUID, req_level = TRACE_LEVEL_VERBOSE,
          req_any = Mask_Bits 0x1C00000, req_all = Mask_Bits 0, req_events = None\<rparr>] @
        (if \<not> mSimpleMode then
          [\<lparr>req_provider = SPECTRUMCONTINUOUS_PROVIDER_GUID, req_level = TRACE_LEVEL_VERBOSE,
            req_any = Mask_Bits 0x800000, req_all = Mask_Bits 0, req_events = None\<rparr>]
         else []))"

text \<open>
  Each call returns a status (\<open>api\<close>, the operating system's answer); the first
  status other than \<^verbatim>\<open>ERROR_SUCCESS\<close> is returned at once and no later call is made.
  The result is the status and the calls that were made.
\<close>

fun issue :: "(enable_request \<Rightarrow> 32 word) \<Rightarrow> enable_request list
    \<Rightarrow> 32 word \<times> enable_request list" where
  "issue api [] = (ERROR_SUCCESS, [])"
| "issue api (r # rs) =
    (if api r \<noteq> ERROR_SUCCESS then (api r, [r])
     else (case issue api rs of (st, made) \<Rightarrow> (st, r # made)))"

definition EnableProviders ::
  "(enable_request \<Rightarrow> 32 word) \<Rightarrow> bool \<Rightarrow> bool option \<Rightarrow> 32 word \<times> enable_request list" where
  "EnableProviders api mTrackDisplay mrConsumer =
    issue api (provider_requests mTrackDisplay mrConsumer)"

text \<open>
  An event of a provider reaches the session once a successful call has enabled the
  provider with no event-id filter or with a filter that lists the event.
\<close>

definition lets_in :: "provider \<Rightarrow> event_id \<Rightarrow> enable_request \<Rightarrow> bool" where
  "lets_in p e r =
    (req_provider r = p \<and> (case req_events r of None \<Rightarrow> True | Some ids \<Rightarrow> e \<in> set ids))"

definition event_enabled :: "bool \<Rightarrow> bool option \<Rightarrow> provider \<Rightarrow> event_id \<Rightarrow> bool" where
  "event_enabled mTrackDisplay mrConsumer p e =
    list_ex (lets_in p e) (snd (EnableProviders (\<lambda>_. ERROR_SUCCESS) mTrackDisplay mrConsumer))"


section \<open>The trace consumer's data (PresentMonTraceConsumer.hpp)\<close>

datatype PresentMode =
    Unknown
  | Hardware_Legacy_Flip
  | Hardware_Legacy_Copy_To_Front_Buffer
  | Hardware_Independent_Flip
  | Composed_Flip
  | Composed_Copy_GPU_GDI
  | Composed_Copy_CPU_GDI
  | Composed_Composition_Atlas
  | Hardware_Composed_Independent_Flip

datatype PresentResult = Result_Unknown | Presented | Discarded | Error

datatype Runtime = DXGI | D3D9 | Other

record ProcessEvent =
  ImageFileName :: string
  ProcQpcTime :: "64 word"
  ProcProcessId :: "32 word"
  IsStartEvent :: bool

text \<open>
  A \<^verbatim>\<open>std::shared_ptr<PresentEvent>\<close> is an address into the store \<open>heap\<close> of the
  consumer; two containers that hold the same address share the record.
\<close>

type_synonym ptr = nat

record PresentEvent =
  QpcTime :: "64 word"
  ProcessId :: "32 word"
  ThreadId :: "32 word"
  TimeTaken :: "64 word"
  ReadyTime :: "64 word"
  ScreenTime :: "64 word"
  SwapChainAddress :: "64 word"
  SyncInterval :: "32 word"
  PresentFlags :: "32 word"
  DxgKrnlHContext :: "64 word"
  Win32KPresentCount :: "64 word"
  Win32KBindId :: "64 word"
  LegacyBlitTokenData :: "64 word"
  Hwnd :: "64 word"
  TokenPtr :: "64 word"
  CompositionSurfaceLuid :: "64 word"
  mAllPresentsTrackingIndex :: "32 word"
  QueueSubmitSequence :: "32 word"
  DestWidth :: "32 word"
  DestHeight :: "32 word"
  DriverBatchThreadId :: "32 word"
  Runtime :: Runtime
  PresentMode :: PresentMode
  FinalState :: PresentResult
  SupportsTearing :: bool
  MMIO :: bool
  SeenDxgkPresent :: bool
  SeenWin32KEvents :: bool
  DwmNotified :: bool
  SeenInFrameEvent :: bool
  CompletionIsDeferred :: bool
  IsCompleted :: bool
  IsLost :: bool
  PresentInDwmWaitingStruct :: bool
  DependentPresents :: "ptr list"

type_synonym OrderedPresents = "(64 word \<times> ptr) list"

type_synonym DeferredCompletions = "(ptr \<times> 32 word) list"

type_synonym Win32KPresentHistoryTokenKey = "64 word \<times> 64 word \<times> 64 word"

text \<open>
  The members of \<^verbatim>\<open>PMTraceConsumer\<close>.  A \<^verbatim>\<open>std::map\<close> from a key to a shared pointer is
  a partial function from the key to an address; \<^verbatim>\<open>OrderedPresents\<close> is kept as a
  list sorted by key, since it is walked in key order; a missing entry of
  \<^verbatim>\<open>mDeferredCompletions\<close> or \<^verbatim>\<open>mPresentsByProcess\<close> is the empty container.  An empty
  slot of \<^verbatim>\<open>mAllPresents\<close> (a null pointer) is \<open>None\<close>.  \<open>heap\<close> holds the records and
  \<open>heap_next\<close> is the next address to hand out.
\<close>

record PMTraceConsumer =
  heap :: "ptr \<rightharpoonup> PresentEvent"
  heap_next :: ptr
  mFilteredEvents :: bool
  mFilteredProcessIds :: bool
  mTrackDisplay :: bool
  mHasCompletedAPresent :: bool
  mCompletePresentEvents :: "ptr list"
  mLostPresentEvents :: "ptr list"
  mDeferredCompletions :: "32 word \<Rightarrow> DeferredCompletions"
  mProcessEvents :: "ProcessEvent list"
  mAllPresentsNextIndex :: nat
  mAllPresents :: "ptr option list"
  mPresentByThreadId :: "32 word \<rightharpoonup> ptr"
  mPresentsByProcess :: "32 word \<Rightarrow> OrderedPresents"
  mPresentsBySubmitSequence :: "32 word \<rightharpoonup> ptr"
  mWin32KPresentHistoryTokens :: "Win32KPresentHistoryTokenKey \<rightharpoonup> ptr"
  mDxgKrnlPresentHistoryTokens :: "64 word \<rightharpoonup> ptr"
  mBltsByDxgContext :: "64 word \<rightharpoonup> ptr"
  mLastWindowPresent :: "64 word \<rightharpoonup> ptr"
  mPresentsWaitingForDWM :: "ptr list"
  DwmProcessId :: "32 word"
  DwmPresentThreadId :: "32 word"
  mPresentsByLegacyBlitToken :: "64 word \<rightharpoonup> ptr"
  mTrackedProcessFilter :: "32 word set"

subsection \<open>The dequeue operations\<close>

datatype mutex =
    mPresentEventMutex
  | mLostPresentEventMutex
  | mProcessEventMutex
  | mTrackedProcessFilterMutex

datatype lock_event = Acquire mutex | Release mutex

text \<open>
  \<^verbatim>\<open>std::lock_guard<std::mutex> lock(m)\<close> at the head of a function body: \<open>m\<close> is
  acquired, the rest of the body runs, \<open>m\<close> is released.  The result carries the lock
  events of the call in order.
\<close>

definition lock_guard ::
  "mutex \<Rightarrow> ('s \<Rightarrow> 'a \<times> 's) \<Rightarrow> 's \<Rightarrow> lock_event list \<times> 'a \<times> 's" where
  "lock_guard m body s = ([Acquire m] @ [Release m], body s)"

text \<open>
  \<^verbatim>\<open>out.swap(queue)\<close>: the caller's vector receives the queue's elements and the queue
  those of the caller's vector.  Each function returns the lock events, the caller's
  vector after the call and the consumer after the call.
\<close>

definition DequeueProcessEvents ::
  "ProcessEvent list \<Rightarrow> PMTraceConsumer
    \<Rightarrow> lock_event list \<times> ProcessEvent list \<times> PMTraceConsumer" where
  "DequeueProcessEvents outProcessEvents =
    lock_guard mProcessEventMutex
      (\<lambda>s. (mProcessEvents s, s\<lparr>mProcessEvents := outProcessEvents\<rparr>))"

definition DequeuePresentEvents ::
  "ptr list \<Rightarrow> PMTraceConsumer \<Rightarrow> lock_event list \<times> ptr list \<times> PMTraceConsumer" where
  "DequeuePresentEvents outPresentEvents =
    lock_guard mPresentEventMutex
      (\<lambda>s. (mCompletePresentEvents s, s\<lparr>mCompletePresentEvents := outPresentEvents\<rparr>))"

definition DequeueLostPresentEvents ::
  "ptr list \<Rightarrow> PMTraceConsumer \<Rightarrow> lock_event list \<times> ptr list \<times> PMTraceConsumer" where
  "DequeueLostPresentEvents outPresentEvents =
    lock_guard mLostPresentEventMutex
      (\<lambda>s. (mLostPresentEvents s, s\<lparr>mLostPresentEvents := outPresentEvents\<rparr>))"

text \<open>
  The producer's side of the three queues is a \<^verbatim>\<open>push_back\<close>; \<open>queued xs q\<close> is the
  queue \<open>q\<close> after the items \<open>xs\<close> have been pushed in order.
\<close>

definition queued :: "'a list \<Rightarrow> 'a list \<Rightarrow> 'a list" where
  "queued xs q = foldl (\<lambda>q x. q @ [x]) q xs"

section \<open>The correlation engine\<close>

text \<open>
  The header declares the member functions of \<^verbatim>\<open>PMTraceConsumer\<close> that correlate
  events into presents; their bodies are in a source file that is not among the files
  at hand.  The definitions of this section follow the specification's description of
  the engine (its sections 3, 4 and 7) over the data of the header, and keep the
  header's names where a function of the header does the described work.
\<close>

text \<open>
  Modelled from the spec: the body of \<^verbatim>\<open>IsProcessTrackedForFiltering\<close> is missing.
  ``Records whose pid is outside the filter (when filter mode is enabled) are silently
  dropped at completion time.''
\<close>

definition IsProcessTrackedForFiltering :: "32 word \<Rightarrow> PMTraceConsumer \<Rightarrow> bool" where
  "IsProcessTrackedForFiltering processID s =
    (if mFilteredProcessIds s then processID \<in> mTrackedProcessFilter s else True)"

definition drop_ptr :: "ptr \<Rightarrow> ('k \<rightharpoonup> ptr) \<Rightarrow> ('k \<rightharpoonup> ptr)" where
  "drop_ptr p m = (\<lambda>k. if m k = Some p then None else m k)"

text \<open>
  Modelled from the spec: the removal of a record from the tracking structures, whose
  body is missing.  ``On completion or loss, ownership transfers to the output queue,
  and all index entries for that record are removed.''  The indexes are those of the
  table in section 4.2, the ring buffer and the compositor's waiting queue among them.
\<close>

definition purge :: "ptr \<Rightarrow> PMTraceConsumer \<Rightarrow> PMTraceConsumer" where
  "purge p s = s
    \<lparr>mAllPresents := map (\<lambda>x. if x = Some p then None else x) (mAllPresents s),
     mPresentByThreadId := drop_ptr p (mPresentByThreadId s),
     mPresentsByProcess := (\<lambda>pid. filter (\<lambda>e. snd e \<noteq> p) (mPresentsByProcess s pid)),
     mPresentsBySubmitSequence := drop_ptr p (mPresentsBySubmitSequence s),
     mWin32KPresentHistoryTokens := drop_ptr p (mWin32KPresentHistoryTokens s),
     mDxgKrnlPresentHistoryTokens := drop_ptr p (mDxgKrnlPresentHistoryTokens s),
     mBltsByDxgContext := drop_ptr p (mBltsByDxgContext s),
     mLastWindowPresent := drop_ptr p (mLastWindowPresent s),
     mPresentsWaitingForDWM := removeAll p (mPresentsWaitingForDWM s),
     mPresentsByLegacyBlitToken := drop_ptr p (mPresentsByLegacyBlitToken s)\<rparr>"

text \<open>
  Modelled from the spec: the body of \<^verbatim>\<open>RemoveLostPresent\<close> is missing.  ``The prior
  record is marked lost (unless already terminal) and removed from all indexes'';
  ``Lost-by-eviction, lost-by-replacement: emitted on \<open>lost_out\<close>.''
\<close>

definition RemoveLostPresent :: "ptr \<Rightarrow> PMTraceConsumer \<Rightarrow> PMTraceConsumer" where
  "RemoveLostPresent p s =
    (case heap s p of
       None \<Rightarrow> s
     | Some r \<Rightarrow>
        if IsCompleted r \<or> IsLost r then s
        else (purge p s)
          \<lparr>heap := (heap s)(p \<mapsto> r\<lparr>IsLost := True\<rparr>),
           mLostPresentEvents := mLostPresentEvents s @ [p]\<rparr>)"

text \<open>
  Modelled from the spec: the constructor \<^verbatim>\<open>PresentEvent(hdr, runtime)\<close> is missing.
  A record is ``keyed on (qpc, pid, tid)'' of the event header; ``unknown times are
  zero'', no key is set and nothing is classified yet.
\<close>

definition NewPresentEvent :: "EVENT_HEADER \<Rightarrow> Runtime \<Rightarrow> PresentEvent" where
  "NewPresentEvent hdr runtime =
    \<lparr>QpcTime = TimeStamp hdr, ProcessId = HdrProcessId hdr, ThreadId = HdrThreadId hdr,
     TimeTaken = 0, ReadyTime = 0, ScreenTime = 0, SwapChainAddress = 0, SyncInterval = 0,
     PresentFlags = 0, DxgKrnlHContext = 0, Win32KPresentCount = 0, Win32KBindId = 0,
     LegacyBlitTokenData = 0, Hwnd = 0, TokenPtr = 0, CompositionSurfaceLuid = 0,
     mAllPresentsTrackingIndex = 0, QueueSubmitSequence = 0, DestWidth = 0, DestHeight = 0,
     DriverBatchThreadId = 0, Runtime = runtime, PresentMode = Unknown,
     FinalState = Result_Unknown, SupportsTearing = False, MMIO = False,
     SeenDxgkPresent = False, SeenWin32KEvents = False, DwmNotified = False,
     SeenInFrameEvent = False, CompletionIsDeferred = False, IsCompleted = False,
     IsLost = False, PresentInDwmWaitingStruct = False, DependentPresents = []\<rparr>"

text \<open>
  Insertion into a \<^verbatim>\<open>std::map\<close> ordered by key: an entry whose key is already in the
  map is not inserted.
\<close>

fun insert_ordered :: "64 word \<Rightarrow> ptr \<Rightarrow> OrderedPresents \<Rightarrow> OrderedPresents" where
  "insert_ordered k p [] = [(k, p)]"
| "insert_ordered k p (e # es) =
    (if k < fst e then (k, p) # e # es
     else if k = fst e then e # es
     else e # insert_ordered k p es)"

text \<open>
  Modelled from the spec: the body of \<^verbatim>\<open>FindOrCreatePresent\<close> is missing.
  ``If \<open>by_thread[tid]\<close> exists, return it; otherwise create a new record keyed on
  (qpc, pid, tid), insert into \<open>all_records\<close> at \<open>next_ring++\<close> (wrapping), into
  \<open>by_thread[tid]\<close>, and into \<open>by_process_ordered[pid]\<close>.  If the ring slot was
  occupied, the prior record is marked lost (unless already terminal) and removed from
  all indexes.''  The capacity N of the ring is the length of \<^verbatim>\<open>mAllPresents\<close>; with an
  index outside the ring no slot is read or written.
\<close>

definition FindOrCreatePresent ::
  "EVENT_HEADER \<Rightarrow> Runtime \<Rightarrow> PMTraceConsumer \<Rightarrow> ptr \<times> PMTraceConsumer" where
  "FindOrCreatePresent hdr runtime s =
    (case mPresentByThreadId s (HdrThreadId hdr) of
       Some p \<Rightarrow> (p, s)
     | None \<Rightarrow>
        (let i = mAllPresentsNextIndex s;
             occupant = (if i < length (mAllPresents s) then mAllPresents s ! i else None);
             s1 = (case occupant of None \<Rightarrow> s | Some q \<Rightarrow> RemoveLostPresent q s);
             p = heap_next s1;
             r = (NewPresentEvent hdr runtime)\<lparr>mAllPresentsTrackingIndex := of_nat i\<rparr>
         in (p, s1
              \<lparr>heap := (heap s1)(p \<mapsto> r),
               heap_next := Suc p,
               mAllPresents := (mAllPresents s1)[i := Some p],
               mAllPresentsNextIndex := Suc i mod length (mAllPresents s1),
               mPresentByThreadId := (mPresentByThreadId s1)(HdrThreadId hdr \<mapsto> p),
               mPresentsByProcess := (mPresentsByProcess s1)
                 (HdrProcessId hdr :=
                    insert_ordered (TimeStamp hdr) p
                      (mPresentsByProcess s1 (HdrProcessId hdr)))\<rparr>)))"

text \<open>
  Modelled from the spec: the body of \<^verbatim>\<open>RemovePresentFromTemporaryTrackingCollections\<close>
  is missing.  The collections that track a record for a time are the key indexes of the
  table in section 4.2 (a live record ``may additionally appear in any subset of the key
  indexes'') and the compositor's waiting queue; the ring buffer and the per-process
  ordered map hold ``every live record'' and are not among them.  With
  \<open>waitForPresentStop\<close> the record stays in the thread index, where its runtime-end
  looks it up.
\<close>

definition RemovePresentFromTemporaryTrackingCollections ::
  "ptr \<Rightarrow> bool \<Rightarrow> PMTraceConsumer \<Rightarrow> PMTraceConsumer" where
  "RemovePresentFromTemporaryTrackingCollections p waitForPresentStop s = s
    \<lparr>mPresentByThreadId :=
       (if waitForPresentStop then mPresentByThreadId s else drop_ptr p (mPresentByThreadId s)),
     mPresentsBySubmitSequence := drop_ptr p (mPresentsBySubmitSequence s),
     mWin32KPresentHistoryTokens := drop_ptr p (mWin32KPresentHistoryTokens s),
     mDxgKrnlPresentHistoryTokens := drop_ptr p (mDxgKrnlPresentHistoryTokens s),
     mBltsByDxgContext := drop_ptr p (mBltsByDxgContext s),
     mLastWindowPresent := drop_ptr p (mLastWindowPresent s),
     mPresentsWaitingForDWM := removeAll p (mPresentsWaitingForDWM s),
     mPresentsByLegacyBlitToken := drop_ptr p (mPresentsByLegacyBlitToken s)\<rparr>"

text \<open>
  Modelled from the spec: the deferral of a completion, whose code is missing.  ``If a
  final state is set but the record still expects further events (notably, a pending
  runtime-end on the originating thread), it is marked \<open>completion_deferred\<close> and
  held.  Each process has a \<open>DeferredCompletions\<close> list of (record, remaining-stops)
  pairs.''  The header adds that the record ``is removed from the tracking structures
  and placed into the DeferredCompletions list with CompletionIsDeferred set'', to be
  completed after ``a case-dependent number of Presents()''.  That number is fixed
  neither by the header nor by the specification: it is the parameter \<open>waitFor\<close> of the
  model, a function of the record.  The held record is live: it keeps its ring slot and
  its place in the per-process map, and it stays the record of its thread until the
  runtime-end that it waits for.
\<close>

definition DeferCompletion ::
  "(PresentEvent \<Rightarrow> 32 word) \<Rightarrow> ptr \<Rightarrow> PMTraceConsumer \<Rightarrow> PMTraceConsumer" where
  "DeferCompletion waitFor p s =
    (case heap s p of
       None \<Rightarrow> s
     | Some r \<Rightarrow> (RemovePresentFromTemporaryTrackingCollections p True s)
        \<lparr>heap := (heap s)(p \<mapsto> r\<lparr>CompletionIsDeferred := True\<rparr>),
         mDeferredCompletions := (mDeferredCompletions s)
           (ProcessId r := mDeferredCompletions s (ProcessId r) @ [(p, waitFor r)])\<rparr>)"

text \<open>
  Modelled from the spec: the hand-off of a completed record, whose code is missing.
  ``Completed records are pushed onto \<open>completed_out\<close>.  All indexes referring to a
  finalized record are purged''; a record of a process outside the filter is dropped.
\<close>

definition HandOffCompleted :: "ptr \<Rightarrow> PMTraceConsumer \<Rightarrow> PMTraceConsumer" where
  "HandOffCompleted p s =
    (case heap s p of
       None \<Rightarrow> s
     | Some r \<Rightarrow> (purge p s)
        \<lparr>heap := (heap s)(p \<mapsto> r\<lparr>CompletionIsDeferred := False, IsCompleted := True\<rparr>),
         mCompletePresentEvents :=
           (if IsProcessTrackedForFiltering (ProcessId r) s
            then mCompletePresentEvents s @ [p] else mCompletePresentEvents s)\<rparr>)"

text \<open>
  Modelled from the spec: the body of \<^verbatim>\<open>CompletePresentHelper\<close> is missing.  A record
  that is still live and not yet held is held when its runtime-end is pending, that is
  while it is still the record of its thread, and handed off otherwise.  A record that
  is completed, lost or held is left as it is.
\<close>

definition CompletePresentHelper ::
  "(PresentEvent \<Rightarrow> 32 word) \<Rightarrow> ptr \<Rightarrow> PMTraceConsumer \<Rightarrow> PMTraceConsumer" where
  "CompletePresentHelper waitFor p s =
    (case heap s p of
       None \<Rightarrow> s
     | Some r \<Rightarrow>
        if IsCompleted r \<or> IsLost r \<or> CompletionIsDeferred r then s
        else if mPresentByThreadId s (ThreadId r) = Some p then DeferCompletion waitFor p s
        else HandOffCompleted p s)"

text \<open>
  Modelled from the spec: the body of \<^verbatim>\<open>CompleteDeferredCompletion\<close> is missing.
  ``On reaching zero, the Completion Engine emits the record.''
\<close>

definition CompleteDeferredCompletion :: "ptr \<Rightarrow> PMTraceConsumer \<Rightarrow> PMTraceConsumer" where
  "CompleteDeferredCompletion p s =
    (case heap s p of
       None \<Rightarrow> s
     | Some r \<Rightarrow> if IsCompleted r \<or> IsLost r then s else HandOffCompleted p s)"

text \<open>
  Modelled from the spec: the completion of the older records of a process, part of
  the missing \<^verbatim>\<open>CompletePresent\<close>.  ``Those are marked \<open>Discarded\<close> (if they had no
  on-screen time) or \<open>Presented\<close> (if they had).''
\<close>

definition CompleteOlder ::
  "(PresentEvent \<Rightarrow> 32 word) \<Rightarrow> ptr \<Rightarrow> PMTraceConsumer \<Rightarrow> PMTraceConsumer" where
  "CompleteOlder waitFor q s =
    (case heap s q of
       None \<Rightarrow> s
     | Some r \<Rightarrow>
        if IsCompleted r \<or> IsLost r \<or> CompletionIsDeferred r then s
        else CompletePresentHelper waitFor q
          (s\<lparr>heap := (heap s)
               (q \<mapsto> r\<lparr>FinalState := (if ScreenTime r = 0 then Discarded else Presented)\<rparr>)\<rparr>))"

text \<open>
  Modelled from the spec: the drain of the dependent records, part of the missing
  \<^verbatim>\<open>CompletePresent\<close>.  ``Its dependent-presents queue is completed in order, each
  inheriting R's on-screen time if it had none.''
\<close>

definition CompleteDependent ::
  "(PresentEvent \<Rightarrow> 32 word) \<Rightarrow> 64 word \<Rightarrow> ptr \<Rightarrow> PMTraceConsumer \<Rightarrow> PMTraceConsumer" where
  "CompleteDependent waitFor screenTime d s =
    (case heap s d of
       None \<Rightarrow> s
     | Some r \<Rightarrow>
        if IsCompleted r \<or> IsLost r \<or> CompletionIsDeferred r then s
        else CompletePresentHelper waitFor d
          (s\<lparr>heap := (heap s)
               (d \<mapsto> r\<lparr>ScreenTime := (if ScreenTime r = 0 then screenTime else ScreenTime r)\<rparr>)\<rparr>))"

definition older_presents :: "PresentEvent \<Rightarrow> PMTraceConsumer \<Rightarrow> ptr list" where
  "older_presents r s =
    map snd (filter (\<lambda>e. fst e < QpcTime r) (mPresentsByProcess s (ProcessId r)))"

text \<open>
  Modelled from the spec: the body of \<^verbatim>\<open>CompletePresent\<close> is missing.  ``When record R
  completes, the engine first completes every older record in
  \<open>by_process_ordered[R.pid]\<close> (by \<open>qpc_start\<close>) that is still live.  After R, its
  dependent-presents queue is completed in order.''
\<close>

definition CompletePresent ::
  "(PresentEvent \<Rightarrow> 32 word) \<Rightarrow> ptr \<Rightarrow> PMTraceConsumer \<Rightarrow> PMTraceConsumer" where
  "CompletePresent waitFor p s =
    (case heap s p of
       None \<Rightarrow> s
     | Some r \<Rightarrow>
        (let s1 = fold (CompleteOlder waitFor) (older_presents r s) s;
             s2 = CompletePresentHelper waitFor p s1
         in fold (CompleteDependent waitFor (ScreenTime r)) (DependentPresents r) s2))"

subsection \<open>Re-indexing\<close>

text \<open>
  Modelled from the spec: the code that installs an index entry is missing.  ``When a
  handler learns a new key for an existing record, it installs the new index entry,
  evicting any previous occupant as a lost record.''  \<open>evict p occupant\<close> is the
  eviction of the entry's occupant before \<open>p\<close> takes the entry; the occupant is kept
  when it is \<open>p\<close> itself.
\<close>

definition evict :: "ptr \<Rightarrow> ptr option \<Rightarrow> PMTraceConsumer \<Rightarrow> PMTraceConsumer" where
  "evict p occupant s =
    (case occupant of
       None \<Rightarrow> s
     | Some q \<Rightarrow> if q = p then s else RemoveLostPresent q s)"


text \<open>Modelled from the spec: re-indexing by queue-submit sequence.\<close>

definition TrackSubmitSequence :: "32 word \<Rightarrow> ptr \<Rightarrow> PMTraceConsumer \<Rightarrow> PMTraceConsumer" where
  "TrackSubmitSequence submitSequence p s =
    (let s1 = evict p (mPresentsBySubmitSequence s submitSequence) s
     in s1\<lparr>mPresentsBySubmitSequence := (mPresentsBySubmitSequence s1)(submitSequence \<mapsto> p)\<rparr>)"

text \<open>Modelled from the spec: re-indexing by composition token triple.\<close>

definition TrackWin32KToken ::
  "Win32KPresentHistoryTokenKey \<Rightarrow> ptr \<Rightarrow> PMTraceConsumer \<Rightarrow> PMTraceConsumer" where
  "TrackWin32KToken key p s =
    (let s1 = evict p (mWin32KPresentHistoryTokens s key) s
     in s1\<lparr>mWin32KPresentHistoryTokens := (mWin32KPresentHistoryTokens s1)(key \<mapsto> p)\<rparr>)"

text \<open>Modelled from the spec: re-indexing by kernel present-history token.\<close>

definition TrackDxgKrnlToken :: "64 word \<Rightarrow> ptr \<Rightarrow> PMTraceConsumer \<Rightarrow> PMTraceConsumer" where
  "TrackDxgKrnlToken token p s =
    (let s1 = evict p (mDxgKrnlPresentHistoryTokens s token) s
     in s1\<lparr>mDxgKrnlPresentHistoryTokens := (mDxgKrnlPresentHistoryTokens s1)(token \<mapsto> p)\<rparr>)"



subsection \<open>Handlers\<close>

definition modify_present ::
  "ptr \<Rightarrow> (PresentEvent \<Rightarrow> PresentEvent) \<Rightarrow> PMTraceConsumer \<Rightarrow> PMTraceConsumer" where
  "modify_present p f s =
    (case heap s p of None \<Rightarrow> s | Some r \<Rightarrow> s\<lparr>heap := (heap s)(p \<mapsto> f r)\<rparr>)"

text \<open>
  Modelled from the spec: the handler of the runtime's present-start events is
  missing.  ``Creates or returns a record via FindOrCreate; sets runtime kind,
  swap-chain handle, sync interval, present flags.''
\<close>

definition RuntimePresentStart ::
  "EVENT_HEADER \<Rightarrow> Runtime \<Rightarrow> 64 word \<Rightarrow> 32 word \<Rightarrow> 32 word
    \<Rightarrow> PMTraceConsumer \<Rightarrow> PMTraceConsumer" where
  "RuntimePresentStart hdr runtime swapChain syncInterval flags s =
    (case FindOrCreatePresent hdr runtime s of
       (p, s1) \<Rightarrow>
         modify_present p
           (\<lambda>r. r\<lparr>Runtime := runtime, SwapChainAddress := swapChain,
                  SyncInterval := syncInterval, PresentFlags := flags\<rparr>) s1)"

text \<open>
  One runtime-end seen by the entries of a \<open>DeferredCompletions\<close> list: every count is
  decremented (an unsigned 32-bit decrement); the result is the entries that stay and
  the records whose count reached zero, both in the order of the list.
\<close>

fun stop_deferred :: "DeferredCompletions \<Rightarrow> DeferredCompletions \<times> ptr list" where
  "stop_deferred [] = ([], [])"
| "stop_deferred (e # es) =
    (case stop_deferred es of
       (keep, done) \<Rightarrow>
         if snd e - 1 = 0 then (keep, fst e # done) else ((fst e, snd e - 1) # keep, done))"

text \<open>
  Modelled from the spec: the first part of the missing \<^verbatim>\<open>RuntimePresentStop\<close>, on the
  record of the event's thread.  ``Sets \<open>time_taken = qpc_now - qpc_start\<close>.  Removes
  the record from \<open>by_thread\<close>.''
\<close>

definition StopOnThread :: "EVENT_HEADER \<Rightarrow> PMTraceConsumer \<Rightarrow> PMTraceConsumer" where
  "StopOnThread hdr s =
    (case mPresentByThreadId s (HdrThreadId hdr) of
       None \<Rightarrow> s
     | Some p \<Rightarrow>
        (case heap s p of
           None \<Rightarrow> s
         | Some r \<Rightarrow> s
            \<lparr>heap := (heap s)(p \<mapsto> r\<lparr>TimeTaken := TimeStamp hdr - QpcTime r\<rparr>),
             mPresentByThreadId := (mPresentByThreadId s)(HdrThreadId hdr := None)\<rparr>))"

text \<open>
  Modelled from the spec: the second part of the missing \<^verbatim>\<open>RuntimePresentStop\<close>, on the
  held records of the event's process.  ``Each subsequent runtime-end observed on that
  process decrements; on reaching zero, the Completion Engine emits the record.''
\<close>

definition StopDeferredCompletions :: "32 word \<Rightarrow> PMTraceConsumer \<Rightarrow> PMTraceConsumer" where
  "StopDeferredCompletions pid s =
    (case stop_deferred (mDeferredCompletions s pid) of
       (keep, done) \<Rightarrow>
         fold CompleteDeferredCompletion done
           (s\<lparr>mDeferredCompletions := (mDeferredCompletions s)(pid := keep)\<rparr>))"

text \<open>
  Modelled from the spec: the third part of the missing \<^verbatim>\<open>RuntimePresentStop\<close>, the
  decision on the record that was the thread's.  ``If the record has already reached a
  final state and all expected events have arrived, routes through the Completion
  Engine.  If a final state is set but further events remain expected (e.g., on-screen
  time), marks \<open>completion_deferred\<close>.''  Of the events that may remain expected the
  specification names the on-screen time, so the record counts as complete in its events
  when its on-screen time is known.  A record that is already completed, lost or held is
  left as it is.  The record is marked after the stops have been counted: the stop that
  marks it is not one of its subsequent stops.
\<close>

definition CompleteAfterStop ::
  "(PresentEvent \<Rightarrow> 32 word) \<Rightarrow> ptr \<Rightarrow> PMTraceConsumer \<Rightarrow> PMTraceConsumer" where
  "CompleteAfterStop waitFor p s =
    (case heap s p of
       None \<Rightarrow> s
     | Some r \<Rightarrow>
        if FinalState r = Result_Unknown then s
        else if IsCompleted r \<or> IsLost r \<or> CompletionIsDeferred r then s
        else if ScreenTime r \<noteq> 0 then CompletePresent waitFor p s
        else DeferCompletion waitFor p s)"

text \<open>Modelled from the spec: the body of \<^verbatim>\<open>RuntimePresentStop\<close> is missing.\<close>

definition RuntimePresentStop ::
  "(PresentEvent \<Rightarrow> 32 word) \<Rightarrow> EVENT_HEADER \<Rightarrow> PMTraceConsumer \<Rightarrow> PMTraceConsumer" where
  "RuntimePresentStop waitFor hdr s =
    (let s2 = StopDeferredCompletions (HdrProcessId hdr) (StopOnThread hdr s)
     in case mPresentByThreadId s (HdrThreadId hdr) of
          None \<Rightarrow> s2
        | Some p \<Rightarrow> CompleteAfterStop waitFor p s2)"

text \<open>
  Modelled from the spec: the body of \<^verbatim>\<open>HandleDxgkFlip\<close> is missing.  ``Sets variant
  to \<open>HwLegacyFlip\<close>, records sync interval, \<open>mmio\<close> flag'', on the record of the event's
  thread; without such a record the event is an orphan.
\<close>

definition HandleDxgkFlip ::
  "EVENT_HEADER \<Rightarrow> 32 word \<Rightarrow> bool \<Rightarrow> PMTraceConsumer \<Rightarrow> PMTraceConsumer" where
  "HandleDxgkFlip hdr flipInterval mmio s =
    (case mPresentByThreadId s (HdrThreadId hdr) of
       None \<Rightarrow> s
     | Some p \<Rightarrow>
        modify_present p
          (\<lambda>r. r\<lparr>PresentMode := Hardware_Legacy_Flip, SyncInterval := flipInterval,
                 MMIO := mmio\<rparr>) s)"

text \<open>
  Modelled from the spec: the body of \<^verbatim>\<open>HandleDxgkQueueSubmit\<close> is missing.
  ``Records the submit sequence; indexes by it'', on the record of the event's thread.
  The resolution of the blit-context ambiguity is not part of the model.
\<close>

definition HandleDxgkQueueSubmit ::
  "EVENT_HEADER \<Rightarrow> 32 word \<Rightarrow> 64 word \<Rightarrow> PMTraceConsumer \<Rightarrow> PMTraceConsumer" where
  "HandleDxgkQueueSubmit hdr submitSequence context s =
    (case mPresentByThreadId s (HdrThreadId hdr) of
       None \<Rightarrow> s
     | Some p \<Rightarrow>
        (case heap s p of
           None \<Rightarrow> s
         | Some r \<Rightarrow>
            modify_present p
              (\<lambda>r. r\<lparr>QueueSubmitSequence := submitSequence, DxgKrnlHContext := context\<rparr>)
              (TrackSubmitSequence submitSequence p s)))"

text \<open>Modelled from the spec: the body of \<^verbatim>\<open>FindBySubmitSequence\<close> is missing.\<close>

definition FindBySubmitSequence :: "32 word \<Rightarrow> PMTraceConsumer \<Rightarrow> ptr option" where
  "FindBySubmitSequence submitSequence s = mPresentsBySubmitSequence s submitSequence"

text \<open>
  Modelled from the spec: the body of \<^verbatim>\<open>HandleDxgkMMIOFlip\<close> is missing.  ``By submit
  sequence, sets ready time, tearing and immediate flags.''
\<close>

definition HandleDxgkMMIOFlip ::
  "EVENT_HEADER \<Rightarrow> 32 word \<Rightarrow> bool \<Rightarrow> PMTraceConsumer \<Rightarrow> PMTraceConsumer" where
  "HandleDxgkMMIOFlip hdr flipSubmitSequence tearing s =
    (case FindBySubmitSequence flipSubmitSequence s of
       None \<Rightarrow> s
     | Some p \<Rightarrow>
        modify_present p (\<lambda>r. r\<lparr>ReadyTime := TimeStamp hdr, SupportsTearing := tearing\<rparr>) s)"

text \<open>
  Modelled from the spec: the body of \<^verbatim>\<open>HandleDxgkSyncDPC\<close> is missing.  ``By submit
  sequence, sets on-screen time''; the final state is ``\<open>Presented\<close>: on-screen time
  becomes known'', and the record goes to the Completion Engine.
\<close>

definition HandleDxgkSyncDPC ::
  "(PresentEvent \<Rightarrow> 32 word) \<Rightarrow> EVENT_HEADER \<Rightarrow> 32 word
    \<Rightarrow> PMTraceConsumer \<Rightarrow> PMTraceConsumer" where
  "HandleDxgkSyncDPC waitFor hdr flipSubmitSequence s =
    (case FindBySubmitSequence flipSubmitSequence s of
       None \<Rightarrow> s
     | Some p \<Rightarrow>
        CompletePresent waitFor p
          (modify_present p (\<lambda>r. r\<lparr>ScreenTime := TimeStamp hdr, FinalState := Presented\<rparr>) s))"

text \<open>
  Modelled from the spec: the body of \<^verbatim>\<open>HandleDxgkPresentHistory\<close> is missing.
  ``Assigns the kernel-present-history token to the thread's current record and indexes
  it.''
\<close>

definition HandleDxgkPresentHistory ::
  "EVENT_HEADER \<Rightarrow> 64 word \<Rightarrow> PMTraceConsumer \<Rightarrow> PMTraceConsumer" where
  "HandleDxgkPresentHistory hdr token s =
    (case mPresentByThreadId s (HdrThreadId hdr) of
       None \<Rightarrow> s
     | Some p \<Rightarrow>
        (case heap s p of
           None \<Rightarrow> s
         | Some r \<Rightarrow>
            modify_present p (\<lambda>r. r\<lparr>TokenPtr := token\<rparr>) (TrackDxgKrnlToken token p s)))"

text \<open>
  Modelled from the spec: the Win32k handler is missing.
  ``\<open>TokenCompositionSurfaceObject\<close> assigns the composition token triple to the
  thread's record and indexes it.''
\<close>

definition HandleTokenCompositionSurfaceObject ::
  "EVENT_HEADER \<Rightarrow> Win32KPresentHistoryTokenKey \<Rightarrow> PMTraceConsumer \<Rightarrow> PMTraceConsumer" where
  "HandleTokenCompositionSurfaceObject hdr key s =
    (case mPresentByThreadId s (HdrThreadId hdr) of
       None \<Rightarrow> s
     | Some p \<Rightarrow>
        (case heap s p of
           None \<Rightarrow> s
         | Some r \<Rightarrow>
            modify_present p
              (\<lambda>r. r\<lparr>CompositionSurfaceLuid := fst key, Win32KPresentCount := fst (snd key),
                     Win32KBindId := snd (snd key)\<rparr>)
              (TrackWin32KToken key p s)))"

text \<open>
  Modelled from the spec: the Win32k handler is missing.  ``\<open>TokenStateChanged\<close>
  transitions the record through InFrame (any older \<open>by_window_last\<close> for the same
  window is marked \<open>Discarded\<close> and completed)''; the header adds that InFrame ``will
  set mLastWindowPresent (and set any current present as discarded)''.  The record is
  found by its token triple and becomes the last present of the window.
\<close>

definition HandleTokenStateChangedInFrame ::
  "(PresentEvent \<Rightarrow> 32 word) \<Rightarrow> EVENT_HEADER \<Rightarrow> Win32KPresentHistoryTokenKey \<Rightarrow> 64 word
    \<Rightarrow> PMTraceConsumer \<Rightarrow> PMTraceConsumer" where
  "HandleTokenStateChangedInFrame waitFor hdr key hwnd s =
    (case mWin32KPresentHistoryTokens s key of
       None \<Rightarrow> s
     | Some p \<Rightarrow>
        (case heap s p of
           None \<Rightarrow> s
         | Some r \<Rightarrow>
            (let s1 = modify_present p (\<lambda>r. r\<lparr>SeenInFrameEvent := True, Hwnd := hwnd\<rparr>) s;
                 s2 = (case mLastWindowPresent s1 hwnd of
                         None \<Rightarrow> s1
                       | Some q \<Rightarrow>
                          if q = p then s1
                          else CompletePresent waitFor q
                            (modify_present q (\<lambda>r. r\<lparr>FinalState := Discarded\<rparr>) s1))
             in s2\<lparr>mLastWindowPresent := (mLastWindowPresent s2)(hwnd \<mapsto> p)\<rparr>)))"

subsection \<open>Events and runs\<close>

datatype event =
    Present_Start EVENT_HEADER Runtime "64 word" "32 word" "32 word"
  | Present_Stop EVENT_HEADER
  | DxgK_Flip EVENT_HEADER "32 word" bool
  | DxgK_QueueSubmit EVENT_HEADER "32 word" "64 word"
  | DxgK_MMIOFlip EVENT_HEADER "32 word" bool
  | DxgK_VSyncDPC EVENT_HEADER "32 word"
  | DxgK_PresentHistory EVENT_HEADER "64 word"
  | Win32K_TokenCompositionSurfaceObject EVENT_HEADER Win32KPresentHistoryTokenKey
  | Win32K_TokenStateChanged_InFrame EVENT_HEADER Win32KPresentHistoryTokenKey "64 word"

fun HandleEvent ::
  "(PresentEvent \<Rightarrow> 32 word) \<Rightarrow> event \<Rightarrow> PMTraceConsumer \<Rightarrow> PMTraceConsumer" where
  "HandleEvent waitFor (Present_Start hdr runtime swapChain syncInterval flags) s =
     RuntimePresentStart hdr runtime swapChain syncInterval flags s"
| "HandleEvent waitFor (Present_Stop hdr) s = RuntimePresentStop waitFor hdr s"
| "HandleEvent waitFor (DxgK_Flip hdr flipInterval mmio) s =
     HandleDxgkFlip hdr flipInterval mmio s"
| "HandleEvent waitFor (DxgK_QueueSubmit hdr submitSequence context) s =
     HandleDxgkQueueSubmit hdr submitSequence context s"
| "HandleEvent waitFor (DxgK_MMIOFlip hdr submitSequence tearing) s =
     HandleDxgkMMIOFlip hdr submitSequence tearing s"
| "HandleEvent waitFor (DxgK_VSyncDPC hdr submitSequence) s =
     HandleDxgkSyncDPC waitFor hdr submitSequence s"
| "HandleEvent waitFor (DxgK_PresentHistory hdr token) s = HandleDxgkPresentHistory hdr token s"
| "HandleEvent waitFor (Win32K_TokenCompositionSurfaceObject hdr key) s =
     HandleTokenCompositionSurfaceObject hdr key s"
| "HandleEvent waitFor (Win32K_TokenStateChanged_InFrame hdr key hwnd) s =
     HandleTokenStateChangedInFrame waitFor hdr key hwnd s"

text \<open>The engine handles the events of a stream one after the other.\<close>

definition run ::
  "(PresentEvent \<Rightarrow> 32 word) \<Rightarrow> event list \<Rightarrow> PMTraceConsumer \<Rightarrow> PMTraceConsumer" where
  "run waitFor evs s = fold (HandleEvent waitFor) evs s"

text \<open>
  The consumer at the start of a session: the defaults of the header, a ring of \<open>N\<close>
  empty slots and no record.
\<close>

definition initial :: "nat \<Rightarrow> PMTraceConsumer" where
  "initial N =
    \<lparr>heap = Map.empty, heap_next = 0,
     mFilteredEvents = False, mFilteredProcessIds = False, mTrackDisplay = True,
     mHasCompletedAPresent = False,
     mCompletePresentEvents = [], mLostPresentEvents = [],
     mDeferredCompletions = (\<lambda>_. []), mProcessEvents = [],
     mAllPresentsNextIndex = 0, mAllPresents = replicate N None,
     mPresentByThreadId = Map.empty, mPresentsByProcess = (\<lambda>_. []),
     mPresentsBySubmitSequence = Map.empty, mWin32KPresentHistoryTokens = Map.empty,
     mDxgKrnlPresentHistoryTokens = Map.empty, mBltsByDxgContext = Map.empty,
     mLastWindowPresent = Map.empty, mPresentsWaitingForDWM = [],
     DwmProcessId = 0, DwmPresentThreadId = 0,
     mPresentsByLegacyBlitToken = Map.empty, mTrackedProcessFilter = {}\<rparr>"

text \<open>The header of an event of process \<open>pid\<close> and thread \<open>tid\<close> at time \<open>qpc\<close>.\<close>

definition header :: "provider \<Rightarrow> 64 word \<Rightarrow> 32 word \<Rightarrow> 32 word \<Rightarrow> EVENT_HEADER" where
  "header prov qpc pid tid =
    \<lparr>ProviderId = prov, TimeStamp = qpc, HdrProcessId = pid, HdrThreadId = tid\<rparr>"

subsection \<open>Observations on a consumer\<close>

text \<open>
  The live records: those created and neither completed nor lost (``a record is in
  exactly one terminal state: present in the completed output queue, present in the lost
  output queue, or still live'').
\<close>

definition is_live :: "PMTraceConsumer \<Rightarrow> ptr \<Rightarrow> bool" where
  "is_live s p = (case heap s p of None \<Rightarrow> False | Some r \<Rightarrow> \<not> IsCompleted r \<and> \<not> IsLost r)"

definition live :: "PMTraceConsumer \<Rightarrow> ptr list" where
  "live s = filter (is_live s) [0..<heap_next s]"



text \<open>
  The state of the ring after \<open>k\<close> records have been created on threads of \<open>T\<close> and
  none has completed: record \<open>p\<close> is lost once \<open>N\<close> later records exist, the ring holds
  the last \<open>N\<close> records, each in slot \<open>p mod N\<close>, and the lost queue holds the others
  in the order of their creation.
\<close>

definition ring_inv :: "nat \<Rightarrow> 32 word set \<Rightarrow> nat \<Rightarrow> PMTraceConsumer \<Rightarrow> bool" where
  "ring_inv N T k s =
    (heap_next s = k \<and> length (mAllPresents s) = N \<and> mAllPresentsNextIndex s = k mod N
     \<and> (\<forall>p<k. \<exists>r. heap s p = Some r \<and> \<not> IsCompleted r \<and> IsLost r = (p + N < k))
     \<and> (\<forall>i<N. \<forall>p. (mAllPresents s ! i = Some p) = (p < k \<and> k \<le> p + N \<and> p mod N = i))
     \<and> mLostPresentEvents s = [0..<k - N]
     \<and> mCompletePresentEvents s = []
     \<and> (\<forall>t q. mPresentByThreadId s t = Some q \<longrightarrow> t \<in> T))"




text \<open>
  A present is begun on thread 1 of process 10 and its packet is submitted with
  sequence 7; \<open>on_screen_before_stop\<close> continues with the vsync of that packet, which
  arrives before the runtime's present-stop; \<open>held_then_start\<close> continues with a
  present begun on thread 2.
\<close>

definition begun_and_submitted :: "event list" where
  "begun_and_submitted =
    [Present_Start (header Microsoft_Windows_DXGI 100 10 1) DXGI 0xA 1 0,
     DxgK_QueueSubmit (header Microsoft_Windows_DxgKrnl 102 10 1) 7 0xC]"

definition on_screen_before_stop :: "event list" where
  "on_screen_before_stop =
    begun_and_submitted @ [DxgK_VSyncDPC (header Microsoft_Windows_DxgKrnl 105 0 0) 7]"

definition held_then_start :: "event list" where
  "held_then_start =
    on_screen_before_stop @ [Present_Start (header Microsoft_Windows_DXGI 120 10 2) DXGI 0xA 1 0]"

subsection \<open>Deferred completion\<close>

text \<open>
  An update of a record that leaves its identity (process, thread, \<open>qpc_start\<close>), its
  terminal and deferral flags and its dependents as they are.
\<close>

definition keeps_status :: "(PresentEvent \<Rightarrow> PresentEvent) \<Rightarrow> bool" where
  "keeps_status f =
    (\<forall>r. ProcessId (f r) = ProcessId r \<and> QpcTime (f r) = QpcTime r \<and> ThreadId (f r) = ThreadId r
        \<and> CompletionIsDeferred (f r) = CompletionIsDeferred r
        \<and> IsCompleted (f r) = IsCompleted r \<and> IsLost (f r) = IsLost r
        \<and> DependentPresents (f r) = DependentPresents r)"









text \<open>
  What the proofs follow of a record \<open>p\<close> through a step.  \<open>flags s p\<close> are the process
  and the deferral and terminal flags of the record, \<open>entries p es\<close> its entries in a
  \<open>DeferredCompletions\<close> list.  \<open>same_status p s s'\<close>: the step from \<open>s\<close> to \<open>s'\<close> keeps
  the flags of \<open>p\<close> and its membership in the two output queues, hands out no address
  twice and leaves the process filter alone; \<open>same_for p s s'\<close>: it also keeps the
  entries of \<open>p\<close> in every list.  \<open>becomes_lost p s s'\<close>: the step marks the live record
  \<open>p\<close> lost and puts it on the lost queue, and changes nothing else of it.
  \<open>quiet p s s'\<close>: one or the other.
\<close>

definition flags :: "PMTraceConsumer \<Rightarrow> ptr \<Rightarrow> (32 word \<times> bool \<times> bool \<times> bool) option" where
  "flags s p =
    map_option (\<lambda>r. (ProcessId r, CompletionIsDeferred r, IsCompleted r, IsLost r)) (heap s p)"

definition entries :: "ptr \<Rightarrow> DeferredCompletions \<Rightarrow> DeferredCompletions" where
  "entries p es = filter (\<lambda>e. fst e = p) es"

definition same_status :: "ptr \<Rightarrow> PMTraceConsumer \<Rightarrow> PMTraceConsumer \<Rightarrow> bool" where
  "same_status p s s' =
    (flags s' p = flags s p
     \<and> (p \<in> set (mCompletePresentEvents s')) = (p \<in> set (mCompletePresentEvents s))
     \<and> (p \<in> set (mLostPresentEvents s')) = (p \<in> set (mLostPresentEvents s))
     \<and> heap_next s \<le> heap_next s'
     \<and> mFilteredProcessIds s' = mFilteredProcessIds s
     \<and> mTrackedProcessFilter s' = mTrackedProcessFilter s)"

definition same_for :: "ptr \<Rightarrow> PMTraceConsumer \<Rightarrow> PMTraceConsumer \<Rightarrow> bool" where
  "same_for p s s' =
    (same_status p s s'
     \<and> (\<forall>pid. entries p (mDeferredCompletions s' pid) = entries p (mDeferredCompletions s pid)))"

definition becomes_lost :: "ptr \<Rightarrow> PMTraceConsumer \<Rightarrow> PMTraceConsumer \<Rightarrow> bool" where
  "becomes_lost p s s' =
    ((\<exists>pid d. flags s p = Some (pid, d, False, False) \<and> flags s' p = Some (pid, d, False, True))
     \<and> (p \<in> set (mCompletePresentEvents s')) = (p \<in> set (mCompletePresentEvents s))
     \<and> p \<in> set (mLostPresentEvents s')
     \<and> heap_next s \<le> heap_next s'
     \<and> mFilteredProcessIds s' = mFilteredProcessIds s
     \<and> mTrackedProcessFilter s' = mTrackedProcessFilter s
     \<and> (\<forall>pid. entries p (mDeferredCompletions s' pid) = entries p (mDeferredCompletions s pid)))"

definition quiet :: "ptr \<Rightarrow> PMTraceConsumer \<Rightarrow> PMTraceConsumer \<Rightarrow> bool" where
  "quiet p s s' = (same_for p s s' \<or> becomes_lost p s s')"

definition same_filter :: "PMTraceConsumer \<Rightarrow> PMTraceConsumer \<Rightarrow> bool" where
  "same_filter s s' =
    (mFilteredProcessIds s' = mFilteredProcessIds s
     \<and> mTrackedProcessFilter s' = mTrackedProcessFilter s)"

text \<open>
  \<open>fixed p s\<close>: the record \<open>p\<close> is held, completed or lost, so that the Completion
  Engine leaves it as it is; \<open>settled p s\<close>: it is completed or lost; \<open>awaiting p pid s\<close>:
  it is marked \<open>CompletionIsDeferred\<close>, live and on neither output queue.
\<close>

definition fixed :: "ptr \<Rightarrow> PMTraceConsumer \<Rightarrow> bool" where
  "fixed p s = (\<exists>pid d c l. flags s p = Some (pid, d, c, l) \<and> (d \<or> c \<or> l))"




subsection \<open>Orphan events and key replacement\<close>







section \<open>Theorems\<close>

lemma issue_all_succeed: "issue (\<lambda>_. ERROR_SUCCESS) rs = (ERROR_SUCCESS, rs)"
  by (induction rs) simp_all

lemma EnableProviders_all_succeed:
  "EnableProviders (\<lambda>_. ERROR_SUCCESS) d m = (ERROR_SUCCESS, provider_requests d m)"
  by (simp add: EnableProviders_def issue_all_succeed)

lemma dispatch_simp:
  "dispatch s d w p = snd (EventRecordCallback s d w
      \<lparr>ProviderId = p, TimeStamp = 0, HdrProcessId = 0, HdrThreadId = 0\<rparr> 0)"
  by (simp add: dispatch_def GetEventRecordCallback_def)

text \<open>
  C10.  Events of the Win7 present-history provider are routed to
  \<open>HandleWin7DxgkPresentHistory\<close>, and \<open>PresentHistory_Start\<close> is in the DxgKrnl event
  filter, whether or not display tracking is on; events of Win32k, of both DWM
  providers and of the Win7 blit, flip, queue-packet, vsync and mmio-flip providers are
  routed to their handlers exactly when display tracking is on, and to nothing otherwise.
\<close>

theorem C10_presenthistory_always_others_gated:
  "dispatch s d w Win7_PRESENTHISTORY_GUID = Some HandleWin7DxgkPresentHistory
   \<and> event_enabled d m Microsoft_Windows_DxgKrnl DxgKrnl_PresentHistory_Start
   \<and> dispatch s d w Microsoft_Windows_Win32k = (if d then Some HandleWin32kEvent else None)
   \<and> dispatch s d w Microsoft_Windows_Dwm_Core = (if d then Some HandleDWMEvent else None)
   \<and> dispatch s d w Microsoft_Windows_Dwm_Core_Win7 = (if d then Some HandleDWMEvent else None)
   \<and> dispatch s d w Win7_BLT_GUID = (if d then Some HandleWin7DxgkBlt else None)
   \<and> dispatch s d w Win7_FLIP_GUID = (if d then Some HandleWin7DxgkFlip else None)
   \<and> dispatch s d w Win7_QUEUEPACKET_GUID = (if d then Some HandleWin7DxgkQueuePacket else None)
   \<and> dispatch s d w Win7_VSYNCDPC_GUID = (if d then Some HandleWin7DxgkVSyncDPC else None)
   \<and> dispatch s d w Win7_MMIOFLIP_GUID = (if d then Some HandleWin7DxgkMMIOFlip else None)"
  by (simp add: dispatch_simp EventRecordCallback_def event_enabled_def
      EnableProviders_all_succeed provider_requests_def lets_in_def DxgKrnl_eventIds_def)



lemma queued_append: "queued xs q = q @ xs"
  unfolding queued_def by (induction xs arbitrary: q) simp_all

text \<open>
  C9.  Each dequeue operation exchanges the caller's vector with its own queue and
  changes nothing else: the caller receives the queue's former contents, the queue
  holds the former contents of the caller's vector (so a non-empty vector puts its
  elements into the consumer), and every other member of the consumer, the two other
  queues and all tracking structures among them, is as before.
\<close>

theorem C9_dequeue_exchanges_and_frames:
  "snd (DequeuePresentEvents out s) = (mCompletePresentEvents s, s\<lparr>mCompletePresentEvents := out\<rparr>)
   \<and> snd (DequeueLostPresentEvents out s) = (mLostPresentEvents s, s\<lparr>mLostPresentEvents := out\<rparr>)
   \<and> snd (DequeueProcessEvents outp s) = (mProcessEvents s, s\<lparr>mProcessEvents := outp\<rparr>)
   \<and> mLostPresentEvents (snd (snd (DequeuePresentEvents out s))) = mLostPresentEvents s
   \<and> mProcessEvents (snd (snd (DequeuePresentEvents out s))) = mProcessEvents s
   \<and> mCompletePresentEvents (snd (snd (DequeueLostPresentEvents out s))) = mCompletePresentEvents s
   \<and> mProcessEvents (snd (snd (DequeueLostPresentEvents out s))) = mProcessEvents s
   \<and> mCompletePresentEvents (snd (snd (DequeueProcessEvents outp s))) = mCompletePresentEvents s
   \<and> mLostPresentEvents (snd (snd (DequeueProcessEvents outp s))) = mLostPresentEvents s"
  by (simp add: DequeuePresentEvents_def DequeueLostPresentEvents_def
      DequeueProcessEvents_def lock_guard_def)

text \<open>
  C6.  Each dequeue operation acquires and releases its own queue's mutex and no
  other.  Called with an empty vector it returns the queue's contents and leaves the
  queue empty, so the next such call returns exactly the items pushed in between.
\<close>

theorem C6_dequeue_own_mutex_swap_out:
  "fst (DequeuePresentEvents out s) = [Acquire mPresentEventMutex, Release mPresentEventMutex]
   \<and> fst (DequeueLostPresentEvents out s)
       = [Acquire mLostPresentEventMutex, Release mLostPresentEventMutex]
   \<and> fst (DequeueProcessEvents outp s) = [Acquire mProcessEventMutex, Release mProcessEventMutex]
   \<and> fst (snd (DequeuePresentEvents [] s)) = mCompletePresentEvents s
   \<and> mCompletePresentEvents (snd (snd (DequeuePresentEvents [] s))) = []
   \<and> fst (snd (DequeuePresentEvents []
        ((snd (snd (DequeuePresentEvents [] s)))
          \<lparr>mCompletePresentEvents :=
             queued xs (mCompletePresentEvents (snd (snd (DequeuePresentEvents [] s))))\<rparr>))) = xs
   \<and> fst (snd (DequeueLostPresentEvents [] s)) = mLostPresentEvents s
   \<and> mLostPresentEvents (snd (snd (DequeueLostPresentEvents [] s))) = []
   \<and> fst (snd (DequeueLostPresentEvents []
        ((snd (snd (DequeueLostPresentEvents [] s)))
          \<lparr>mLostPresentEvents :=
             queued xs (mLostPresentEvents (snd (snd (DequeueLostPresentEvents [] s))))\<rparr>))) = xs
   \<and> fst (snd (DequeueProcessEvents [] s)) = mProcessEvents s
   \<and> mProcessEvents (snd (snd (DequeueProcessEvents [] s))) = []
   \<and> fst (snd (DequeueProcessEvents []
        ((snd (snd (DequeueProcessEvents [] s)))
          \<lparr>mProcessEvents :=
             queued ys (mProcessEvents (snd (snd (DequeueProcessEvents [] s))))\<rparr>))) = ys"
  by (simp add: DequeuePresentEvents_def DequeueLostPresentEvents_def
      DequeueProcessEvents_def lock_guard_def queued_append)

subsection \<open>The ring buffer\<close>













lemma filter_recent: "filter (\<lambda>p. \<not> p + N < k) [0..<k] = [k - N..<k]"
proof -
  have split: "[0..<k] = [0..<k - N] @ [k - N..<k]"
    using upt_add_eq_append[of 0 "k - N" "k - (k - N)"] by simp
  have "filter (\<lambda>p. \<not> p + N < k) [0..<k - N] = []"
    by (auto simp: filter_empty_conv)
  moreover have "filter (\<lambda>p. \<not> p + N < k) [k - N..<k] = [k - N..<k]"
    by (auto simp: filter_id_conv)
  ultimately show ?thesis by (subst split) simp
qed

lemma ring_inv_live:
  assumes "ring_inv N T k s"
  shows "live s = [k - N..<k]"
proof -
  have hn: "heap_next s = k"
    and hp: "\<And>p. p < k \<Longrightarrow> \<exists>r. heap s p = Some r \<and> \<not> IsCompleted r \<and> IsLost r = (p + N < k)"
    using assms by (auto simp: ring_inv_def)
  have "filter (is_live s) [0..<k] = filter (\<lambda>p. \<not> p + N < k) [0..<k]"
  proof (rule filter_cong[OF refl])
    fix p assume "p \<in> set [0..<k]"
    then have "p < k" by simp
    then show "is_live s p = (\<not> p + N < k)" using hp[of p] by (auto simp: is_live_def)
  qed
  then show ?thesis using hn by (simp add: live_def filter_recent)
qed


subsection \<open>The bound on the live records\<close>





















lemma keeps_status_simps [simp]:
  "keeps_status (\<lambda>r. r\<lparr>Runtime := a, SwapChainAddress := b, SyncInterval := c, PresentFlags := d\<rparr>)"
  "keeps_status (\<lambda>r. r\<lparr>PresentMode := m, SyncInterval := c, MMIO := e\<rparr>)"
  "keeps_status (\<lambda>r. r\<lparr>QueueSubmitSequence := sq, DxgKrnlHContext := cx\<rparr>)"
  "keeps_status (\<lambda>r. r\<lparr>ReadyTime := t, SupportsTearing := te\<rparr>)"
  "keeps_status (\<lambda>r. r\<lparr>ScreenTime := t, FinalState := fs\<rparr>)"
  "keeps_status (\<lambda>r. r\<lparr>TokenPtr := tk\<rparr>)"
  "keeps_status (\<lambda>r. r\<lparr>CompositionSurfaceLuid := x, Win32KPresentCount := y, Win32KBindId := z\<rparr>)"
  "keeps_status (\<lambda>r. r\<lparr>SeenInFrameEvent := sf, Hwnd := hw\<rparr>)"
  "keeps_status (\<lambda>r. r\<lparr>FinalState := fs\<rparr>)"
  "keeps_status (\<lambda>r. r\<lparr>TimeTaken := tt\<rparr>)"
  by (simp_all add: keeps_status_def)





















text \<open>
  With a ring of one slot, the record that is held when the second present begins is
  marked lost; the second record is the only live one.
\<close>

lemma held_then_start_live: "live (run (\<lambda>_. 1) held_then_start (initial 1)) = [1]"
  by code_simp

subsection \<open>Deferred completion\<close>













lemma IsProcessTrackedForFiltering_same:
  "mFilteredProcessIds t = mFilteredProcessIds s \<Longrightarrow> mTrackedProcessFilter t = mTrackedProcessFilter s
    \<Longrightarrow> IsProcessTrackedForFiltering pid t = IsProcessTrackedForFiltering pid s"
  by (simp add: IsProcessTrackedForFiltering_def)

lemma fixed_same_status: "fixed p s \<Longrightarrow> same_status p s t \<Longrightarrow> fixed p t"
  by (simp add: fixed_def same_status_def)

lemma fixed_quiet: "fixed p s \<Longrightarrow> quiet p s t \<Longrightarrow> fixed p t"
  by (auto simp: fixed_def quiet_def same_for_def same_status_def becomes_lost_def)















lemma flags_heap_same: "heap s' = heap s \<Longrightarrow> flags s' p = flags s p"
  by (simp add: flags_def)














































lemma same_status_filter: "same_status p s t \<Longrightarrow> same_filter s t"
  by (simp add: same_status_def same_filter_def)










































subsection \<open>Orphan events\<close>









subsection \<open>Key replacement\<close>
















end
